theory Spec2Isabelle
  imports Main
begin

section \<open>JavaScript values and the platform operations the client relies on\<close>

text \<open>
  The client in \<^verbatim>\<open>src/services/api.ts\<close> is a thin wrapper around \<^verbatim>\<open>fetch\<close>,
  \<^verbatim>\<open>localStorage\<close>, \<^verbatim>\<open>URLSearchParams\<close> and \<^verbatim>\<open>JSON\<close>. The values that flow
  through it are JSON values. Numbers are modelled by their integer values (ids, quantities,
  page numbers and HTTP status codes are integers); fractional numbers, \<^verbatim>\<open>NaN\<close> and the
  infinities are outside the model. A \<^verbatim>\<open>string | null\<close> or an optional property is a
  \<open>string option\<close>; \<open>None\<close> stands for \<^verbatim>\<open>null\<close> and \<^verbatim>\<open>undefined\<close> alike.
  A JavaScript object is the list of its own properties in the order in which JavaScript
  enumerates them: insertion order for the property names the client uses, with names that
  are array indices first. Its keys are distinct, and a property read finds the entry by its
  key.
\<close>

datatype json =
    JNull
  | JBool bool
  | JNumber int
  | JString string
  | JArray "json list"
  | JObject "(string \<times> json) list"

text \<open>
  What a call can throw: the \<^verbatim>\<open>Error\<close> built by \<^verbatim>\<open>handleResponse\<close> with its message,
  a \<^verbatim>\<open>TypeError\<close> (a property read on \<^verbatim>\<open>null\<close>, an object that has no string
  conversion, a rejected \<^verbatim>\<open>fetch\<close>), and the \<^verbatim>\<open>SyntaxError\<close> with which
  \<^verbatim>\<open>response.json()\<close> rejects a body that is not JSON.
\<close>

datatype js_error = Error string | TypeError | SyntaxError

fun join :: "string \<Rightarrow> string list \<Rightarrow> string" where
  "join sep [] = []"
| "join sep [x] = x"
| "join sep (x # y # ys) = x @ sep @ join sep (y # ys)"

text \<open>
  \<^verbatim>\<open>Number.prototype.toString\<close> on an integer-valued number: its decimal numeral. This is
  what JavaScript prints for the integers of magnitude below \<open>2 ^ 53\<close>; larger values are
  outside the model.
\<close>

fun digits :: "nat \<Rightarrow> string" where
  "digits n =
     (if n < 10 then [''0123456789'' ! n]
      else digits (n div 10) @ [''0123456789'' ! (n mod 10)])"

declare digits.simps [simp del]

definition number_toString :: "int \<Rightarrow> string" where
  "number_toString n = (if n < 0 then CHR ''-'' # digits (nat (- n)) else digits (nat n))"

text \<open>Truthiness of a parsed value; \<open>None\<close> is \<^verbatim>\<open>undefined\<close>.\<close>

fun truthy :: "json option \<Rightarrow> bool" where
  "truthy None = False"
| "truthy (Some JNull) = False"
| "truthy (Some (JBool b)) = b"
| "truthy (Some (JNumber n)) = (n \<noteq> 0)"
| "truthy (Some (JString s)) = (s \<noteq> [])"
| "truthy (Some (JArray xs)) = True"
| "truthy (Some (JObject kvs)) = True"

text \<open>
  The property read \<^verbatim>\<open>v.message\<close>: a \<^verbatim>\<open>TypeError\<close> on \<^verbatim>\<open>null\<close>, the own property of
  an object, and \<^verbatim>\<open>undefined\<close> on every other value (no prototype defines \<^verbatim>\<open>message\<close>).
\<close>

fun get_message :: "json \<Rightarrow> js_error + json option" where
  "get_message JNull = Inl TypeError"
| "get_message (JObject kvs) = Inr (map_of kvs ''message'')"
| "get_message v = Inr None"

text \<open>
  \<^verbatim>\<open>ToString\<close>, which \<^verbatim>\<open>new Error(x)\<close> applies to its argument. An array is the
  comma-joined conversion of its elements, with \<^verbatim>\<open>null\<close> elements empty; a plain object
  is \<^verbatim>\<open>[object Object]\<close>, unless an own property shadows \<^verbatim>\<open>toString\<close> with a value
  that is not callable, in which case the conversion throws.
\<close>

fun js_toString :: "json \<Rightarrow> js_error + string"
  and js_toString_elems :: "json list \<Rightarrow> js_error + string list" where
  "js_toString JNull = Inr ''null''"
| "js_toString (JBool b) = Inr (if b then ''true'' else ''false'')"
| "js_toString (JNumber n) = Inr (number_toString n)"
| "js_toString (JString s) = Inr s"
| "js_toString (JArray xs) =
     (case js_toString_elems xs of Inl e \<Rightarrow> Inl e | Inr ss \<Rightarrow> Inr (join '','' ss))"
| "js_toString (JObject kvs) =
     (if map_of kvs ''toString'' \<noteq> None then Inl TypeError else Inr ''[object Object]'')"
| "js_toString_elems [] = Inr []"
| "js_toString_elems (x # xs) =
     (case (if x = JNull then Inr [] else js_toString x) of
        Inl e \<Rightarrow> Inl e
      | Inr s \<Rightarrow> (case js_toString_elems xs of Inl e \<Rightarrow> Inl e | Inr ss \<Rightarrow> Inr (s # ss)))"

text \<open>
  \<^verbatim>\<open>JSON.stringify\<close> on a JSON value. Strings are byte sequences (UTF-8); the quotation
  escapes the double quote, the backslash and the control characters.
\<close>

definition hex_lower :: "nat \<Rightarrow> char" where
  "hex_lower d = ''0123456789abcdef'' ! d"

definition quote_char :: "char \<Rightarrow> string" where
  "quote_char c =
     (if c = CHR 0x08 then [CHR 0x5C, CHR ''b'']
      else if c = CHR 0x09 then [CHR 0x5C, CHR ''t'']
      else if c = CHR 0x0A then [CHR 0x5C, CHR ''n'']
      else if c = CHR 0x0C then [CHR 0x5C, CHR ''f'']
      else if c = CHR 0x0D then [CHR 0x5C, CHR ''r'']
      else if c = CHR 0x22 then [CHR 0x5C, CHR 0x22]
      else if c = CHR 0x5C then [CHR 0x5C, CHR 0x5C]
      else if (of_char c :: nat) < 32
        then [CHR 0x5C, CHR ''u'', CHR ''0'', CHR ''0'',
              hex_lower (of_char c div 16), hex_lower (of_char c mod 16)]
      else [c])"

definition quote_string :: "string \<Rightarrow> string" where
  "quote_string s = CHR 0x22 # concat (map quote_char s) @ [CHR 0x22]"

fun JSON_stringify :: "json \<Rightarrow> string" where
  "JSON_stringify JNull = ''null''"
| "JSON_stringify (JBool b) = (if b then ''true'' else ''false'')"
| "JSON_stringify (JNumber n) = number_toString n"
| "JSON_stringify (JString s) = quote_string s"
| "JSON_stringify (JArray xs) = ''['' @ join '','' (map JSON_stringify xs) @ '']''"
| "JSON_stringify (JObject kvs) =
     ''{'' @ join '','' (map (\<lambda>(k, v). quote_string k @ '':'' @ JSON_stringify v) kvs) @ ''}''"

text \<open>
  \<^verbatim>\<open>URLSearchParams\<close>: an ordered list of name-value pairs; \<^verbatim>\<open>append\<close> adds at the end
  and the string conversion is the \<^verbatim>\<open>application/x-www-form-urlencoded\<close> serialisation.
\<close>

definition hex_upper :: "nat \<Rightarrow> char" where
  "hex_upper d = ''0123456789ABCDEF'' ! d"

definition urlencode_byte :: "char \<Rightarrow> string" where
  "urlencode_byte c =
     (if c = CHR '' '' then ''+''
      else if c \<in> set ''*-._0123456789ABCDEFGHIJKLMNOPQRSTUVWXYZabcdefghijklmnopqrstuvwxyz''
        then [c]
      else [CHR ''%'', hex_upper (of_char c div 16), hex_upper (of_char c mod 16)])"

definition urlencode :: "string \<Rightarrow> string" where
  "urlencode s = concat (map urlencode_byte s)"

definition URLSearchParams_append ::
  "string \<Rightarrow> string \<Rightarrow> (string \<times> string) list \<Rightarrow> (string \<times> string) list" where
  "URLSearchParams_append name val searchParams = searchParams @ [(name, val)]"

definition URLSearchParams_toString :: "(string \<times> string) list \<Rightarrow> string" where
  "URLSearchParams_toString searchParams =
     join ''&'' (map (\<lambda>(k, v). urlencode k @ ''='' @ urlencode v) searchParams)"

section \<open>The client and its environment\<close>

text \<open>
  The module exports one instance, \<^verbatim>\<open>apiService\<close>, so a page holds one client, one
  \<^verbatim>\<open>localStorage\<close> and one console. The state has the two fields of the class, the storage
  and what was written to the console.
\<close>

datatype log_arg = Str string | Val json

datatype log_entry = Log "log_arg list" | LogError "log_arg list"

record state =
  baseURL :: string
  token :: "string option"
  localStorage :: "string \<rightharpoonup> string"
  console :: "log_entry list"

definition console_log :: "log_arg list \<Rightarrow> state \<Rightarrow> state" where
  "console_log args s = s\<lparr>console := console s @ [Log args]\<rparr>"

definition console_error :: "log_arg list \<Rightarrow> state \<Rightarrow> state" where
  "console_error args s = s\<lparr>console := console s @ [LogError args]\<rparr>"

text \<open>
  \<^verbatim>\<open>const API_BASE_URL = import.meta.env.VITE_API_URL || 'http://localhost:5000/api'\<close>
\<close>

definition API_BASE_URL :: "string option \<Rightarrow> string" where
  "API_BASE_URL VITE_API_URL =
     (case VITE_API_URL of
        Some u \<Rightarrow> if u \<noteq> [] then u else ''http://localhost:5000/api''
      | None \<Rightarrow> ''http://localhost:5000/api'')"

text \<open>
  The constructor runs once per page load, on the environment variable, the storage the browser
  kept and the console so far.
\<close>

definition constructor ::
  "string option \<Rightarrow> (string \<rightharpoonup> string) \<Rightarrow> log_entry list \<Rightarrow> state" where
  "constructor VITE_API_URL storage con =
     console_log [Str ''API Base URL:'', Str (API_BASE_URL VITE_API_URL)]
       \<lparr>baseURL = API_BASE_URL VITE_API_URL,
        token = storage ''auth_token'',
        localStorage = storage,
        console = con\<rparr>"

text \<open>\<^verbatim>\<open>if (this.token)\<close> holds for a string that is neither \<^verbatim>\<open>null\<close> nor empty.\<close>

definition getHeaders :: "state \<Rightarrow> (string \<times> string) list" where
  "getHeaders s =
     (let headers = [(''Content-Type'', ''application/json'')]
      in case token s of
           Some t \<Rightarrow>
             if t \<noteq> [] then headers @ [(''Authorization'', ''Bearer '' @ t)] else headers
         | None \<Rightarrow> headers)"

definition setToken :: "string option \<Rightarrow> state \<Rightarrow> state" where
  "setToken tok s =
     (let s1 = s\<lparr>token := tok\<rparr>
      in case tok of
           Some t \<Rightarrow>
             if t \<noteq> [] then s1\<lparr>localStorage := (localStorage s1)(''auth_token'' \<mapsto> t)\<rparr>
             else s1\<lparr>localStorage := (localStorage s1)(''auth_token'' := None)\<rparr>
         | None \<Rightarrow> s1\<lparr>localStorage := (localStorage s1)(''auth_token'' := None)\<rparr>)"

section \<open>Requests and responses\<close>

text \<open>
  A request is what the client passes to \<^verbatim>\<open>fetch\<close>; \<open>http_method\<close> is its
  \<^verbatim>\<open>method\<close> option, \<open>None\<close> where the call names none. A response carries its status, its status text and the outcome of
  \<^verbatim>\<open>response.json()\<close>: the parsed body, or \<open>None\<close> when the body is not JSON and the promise
  rejects. \<^verbatim>\<open>response.ok\<close> is true for the statuses 200 to 299. The transport is a function
  from requests to responses or to the error with which \<^verbatim>\<open>fetch\<close> rejects.
\<close>

record request =
  url :: string
  http_method :: "string option"
  headers :: "(string \<times> string) list"
  body :: "string option"

record response =
  status :: int
  statusText :: string
  json_body :: "json option"

definition ok :: "response \<Rightarrow> bool" where
  "ok r = (200 \<le> status r \<and> status r \<le> 299)"

type_synonym transport = "request \<Rightarrow> js_error + response"

type_synonym outcome = "(js_error + json) \<times> state"

text \<open>\<^verbatim>\<open>throw new Error(x)\<close>: the message is the string conversion of \<open>x\<close>.\<close>

definition throw_new_Error :: "json \<Rightarrow> js_error" where
  "throw_new_Error x = (case js_toString x of Inl e \<Rightarrow> e | Inr msg \<Rightarrow> Error msg)"

definition fallback_message :: "response \<Rightarrow> string" where
  "fallback_message r = ''HTTP error! status: '' @ number_toString (status r)"

text \<open>\<^verbatim>\<open>x || d\<close> on a property that may be \<^verbatim>\<open>undefined\<close>.\<close>

definition js_or :: "json option \<Rightarrow> json \<Rightarrow> json" where
  "js_or x d = (case x of Some v \<Rightarrow> if truthy (Some v) then v else d | None \<Rightarrow> d)"

definition handleResponse :: "response \<Rightarrow> state \<Rightarrow> outcome" where
  "handleResponse r s =
     (let s1 = console_log
                 [Str (''API Response: '' @ number_toString (status r) @ '' '' @ statusText r)] s
      in if \<not> ok r then
           (let error = (case json_body r of
                           Some v \<Rightarrow> v
                         | None \<Rightarrow> JObject [(''message'', JString (fallback_message r))]);
                s2 = console_error [Str ''API Error:'', Val error] s1
            in case get_message error of
                 Inl e \<Rightarrow> (Inl e, s2)
               | Inr m \<Rightarrow> (Inl (throw_new_Error (js_or m (JString (fallback_message r)))), s2))
         else (case json_body r of
                 Some v \<Rightarrow> (Inr v, s1)
               | None \<Rightarrow> (Inl SyntaxError, s1)))"

text \<open>
  The two lines every resource method ends with:
  \<^verbatim>\<open>const response = await fetch(...); return this.handleResponse(response);\<close>
\<close>

definition fetch_and_handle :: "transport \<Rightarrow> request \<Rightarrow> state \<Rightarrow> outcome" where
  "fetch_and_handle fetch rq s =
     (case fetch rq of
        Inl e \<Rightarrow> (Inl e, s)
      | Inr r \<Rightarrow> handleResponse r s)"

section \<open>Resource methods\<close>

text \<open>
  Each method logs the call, builds its request and hands it to the transport. The objects
  passed to \<^verbatim>\<open>register\<close>, \<^verbatim>\<open>login\<close> and \<^verbatim>\<open>createOrder\<close> are serialised as they
  come, so they are JSON values here.
\<close>

definition register :: "transport \<Rightarrow> json \<Rightarrow> state \<Rightarrow> outcome" where
  "register fetch userData s =
     (let s1 = console_log [Str ''Calling register API:'', Str (baseURL s @ ''/auth/register'')] s
      in fetch_and_handle fetch
           \<lparr>url = baseURL s1 @ ''/auth/register'',
            http_method = Some ''POST'',
            headers = getHeaders s1,
            body = Some (JSON_stringify userData)\<rparr> s1)"

definition login :: "transport \<Rightarrow> json \<Rightarrow> state \<Rightarrow> outcome" where
  "login fetch credentials s =
     (let s1 = console_log [Str ''Calling login API:'', Str (baseURL s @ ''/auth/login'')] s
      in fetch_and_handle fetch
           \<lparr>url = baseURL s1 @ ''/auth/login'',
            http_method = Some ''POST'',
            headers = getHeaders s1,
            body = Some (JSON_stringify credentials)\<rparr> s1)"

definition getCurrentUser :: "transport \<Rightarrow> state \<Rightarrow> outcome" where
  "getCurrentUser fetch s =
     (let s1 = console_log [Str ''Calling getCurrentUser API:'', Str (baseURL s @ ''/auth/me'')] s
      in fetch_and_handle fetch
           \<lparr>url = baseURL s1 @ ''/auth/me'',
            http_method = None,
            headers = getHeaders s1,
            body = None\<rparr> s1)"

text \<open>
  The optional filters of \<^verbatim>\<open>getProducts\<close>; the argument itself may be omitted. Each
  \<^verbatim>\<open>if (params?.f)\<close> holds for a string that is present and not empty, and for a number
  that is present and not zero.
\<close>

record products_params =
  category :: "string option"
  search :: "string option"
  page :: "int option"
  limit :: "int option"

definition opt_chain :: "'a option \<Rightarrow> ('a \<Rightarrow> 'b option) \<Rightarrow> 'b option" where
  "opt_chain params f = (case params of None \<Rightarrow> None | Some p \<Rightarrow> f p)"

definition getProducts_searchParams :: "products_params option \<Rightarrow> (string \<times> string) list" where
  "getProducts_searchParams params =
     (let searchParams = [];
          searchParams =
            (case opt_chain params category of
               Some c \<Rightarrow>
                 if c \<noteq> [] then URLSearchParams_append ''category'' c searchParams
                 else searchParams
             | None \<Rightarrow> searchParams);
          searchParams =
            (case opt_chain params search of
               Some q \<Rightarrow>
                 if q \<noteq> [] then URLSearchParams_append ''search'' q searchParams
                 else searchParams
             | None \<Rightarrow> searchParams);
          searchParams =
            (case opt_chain params page of
               Some n \<Rightarrow>
                 if n \<noteq> 0 then URLSearchParams_append ''page'' (number_toString n) searchParams
                 else searchParams
             | None \<Rightarrow> searchParams);
          searchParams =
            (case opt_chain params limit of
               Some n \<Rightarrow>
                 if n \<noteq> 0 then URLSearchParams_append ''limit'' (number_toString n) searchParams
                 else searchParams
             | None \<Rightarrow> searchParams)
      in searchParams)"

definition getProducts_url :: "state \<Rightarrow> products_params option \<Rightarrow> string" where
  "getProducts_url s params =
     baseURL s @ ''/products?'' @ URLSearchParams_toString (getProducts_searchParams params)"

definition getProducts :: "transport \<Rightarrow> products_params option \<Rightarrow> state \<Rightarrow> outcome" where
  "getProducts fetch params s =
     (let url = getProducts_url s params;
          s1 = console_log [Str ''Calling getProducts API:'', Str url] s
      in fetch_and_handle fetch
           \<lparr>url = url, http_method = None, headers = getHeaders s1, body = None\<rparr> s1)"

definition getProduct :: "transport \<Rightarrow> int \<Rightarrow> state \<Rightarrow> outcome" where
  "getProduct fetch ident s =
     (let s1 = console_log
                 [Str ''Calling getProduct API:'',
                  Str (baseURL s @ ''/products/'' @ number_toString ident)] s
      in fetch_and_handle fetch
           \<lparr>url = baseURL s1 @ ''/products/'' @ number_toString ident,
            http_method = None,
            headers = getHeaders s1,
            body = None\<rparr> s1)"

definition getCart :: "transport \<Rightarrow> state \<Rightarrow> outcome" where
  "getCart fetch s =
     (let s1 = console_log [Str ''Calling getCart API:'', Str (baseURL s @ ''/cart'')] s
      in fetch_and_handle fetch
           \<lparr>url = baseURL s1 @ ''/cart'',
            http_method = None,
            headers = getHeaders s1,
            body = None\<rparr> s1)"

text \<open>
  \<^verbatim>\<open>addToCart(productId: number, quantity: number = 1)\<close>: an omitted quantity is \<open>None\<close>
  and takes the default.
\<close>

definition addToCart_request :: "state \<Rightarrow> int \<Rightarrow> int option \<Rightarrow> request" where
  "addToCart_request s productId quantity_arg =
     (let quantity = (case quantity_arg of None \<Rightarrow> 1 | Some q \<Rightarrow> q)
      in \<lparr>url = baseURL s @ ''/cart'',
          http_method = Some ''POST'',
          headers = getHeaders s,
          body = Some (JSON_stringify
                   (JObject [(''product_id'', JNumber productId),
                             (''quantity'', JNumber quantity)]))\<rparr>)"

definition addToCart :: "transport \<Rightarrow> int \<Rightarrow> int option \<Rightarrow> state \<Rightarrow> outcome" where
  "addToCart fetch productId quantity_arg s =
     (let s1 = console_log [Str ''Calling addToCart API:'', Str (baseURL s @ ''/cart'')] s
      in fetch_and_handle fetch (addToCart_request s1 productId quantity_arg) s1)"

definition updateCartItem :: "transport \<Rightarrow> int \<Rightarrow> int \<Rightarrow> state \<Rightarrow> outcome" where
  "updateCartItem fetch ident quantity s =
     (let s1 = console_log
                 [Str ''Calling updateCartItem API:'',
                  Str (baseURL s @ ''/cart/'' @ number_toString ident)] s
      in fetch_and_handle fetch
           \<lparr>url = baseURL s1 @ ''/cart/'' @ number_toString ident,
            http_method = Some ''PUT'',
            headers = getHeaders s1,
            body = Some (JSON_stringify (JObject [(''quantity'', JNumber quantity)]))\<rparr> s1)"

definition removeFromCart :: "transport \<Rightarrow> int \<Rightarrow> state \<Rightarrow> outcome" where
  "removeFromCart fetch ident s =
     (let s1 = console_log
                 [Str ''Calling removeFromCart API:'',
                  Str (baseURL s @ ''/cart/'' @ number_toString ident)] s
      in fetch_and_handle fetch
           \<lparr>url = baseURL s1 @ ''/cart/'' @ number_toString ident,
            http_method = Some ''DELETE'',
            headers = getHeaders s1,
            body = None\<rparr> s1)"

definition clearCart :: "transport \<Rightarrow> state \<Rightarrow> outcome" where
  "clearCart fetch s =
     (let s1 = console_log [Str ''Calling clearCart API:'', Str (baseURL s @ ''/cart'')] s
      in fetch_and_handle fetch
           \<lparr>url = baseURL s1 @ ''/cart'',
            http_method = Some ''DELETE'',
            headers = getHeaders s1,
            body = None\<rparr> s1)"

definition getWishlist :: "transport \<Rightarrow> state \<Rightarrow> outcome" where
  "getWishlist fetch s =
     (let s1 = console_log [Str ''Calling getWishlist API:'', Str (baseURL s @ ''/wishlist'')] s
      in fetch_and_handle fetch
           \<lparr>url = baseURL s1 @ ''/wishlist'',
            http_method = None,
            headers = getHeaders s1,
            body = None\<rparr> s1)"

definition addToWishlist :: "transport \<Rightarrow> int \<Rightarrow> state \<Rightarrow> outcome" where
  "addToWishlist fetch productId s =
     (let s1 = console_log [Str ''Calling addToWishlist API:'', Str (baseURL s @ ''/wishlist'')] s
      in fetch_and_handle fetch
           \<lparr>url = baseURL s1 @ ''/wishlist'',
            http_method = Some ''POST'',
            headers = getHeaders s1,
            body = Some (JSON_stringify (JObject [(''product_id'', JNumber productId)]))\<rparr> s1)"

definition removeFromWishlistByProduct :: "transport \<Rightarrow> int \<Rightarrow> state \<Rightarrow> outcome" where
  "removeFromWishlistByProduct fetch productId s =
     (let s1 = console_log
                 [Str ''Calling removeFromWishlistByProduct API:'',
                  Str (baseURL s @ ''/wishlist/product/'' @ number_toString productId)] s
      in fetch_and_handle fetch
           \<lparr>url = baseURL s1 @ ''/wishlist/product/'' @ number_toString productId,
            http_method = Some ''DELETE'',
            headers = getHeaders s1,
            body = None\<rparr> s1)"

definition getOrders :: "transport \<Rightarrow> state \<Rightarrow> outcome" where
  "getOrders fetch s =
     (let s1 = console_log [Str ''Calling getOrders API:'', Str (baseURL s @ ''/orders'')] s
      in fetch_and_handle fetch
           \<lparr>url = baseURL s1 @ ''/orders'',
            http_method = None,
            headers = getHeaders s1,
            body = None\<rparr> s1)"

definition createOrder :: "transport \<Rightarrow> json \<Rightarrow> state \<Rightarrow> outcome" where
  "createOrder fetch orderData s =
     (let s1 = console_log [Str ''Calling createOrder API:'', Str (baseURL s @ ''/orders'')] s
      in fetch_and_handle fetch
           \<lparr>url = baseURL s1 @ ''/orders'',
            http_method = Some ''POST'',
            headers = getHeaders s1,
            body = Some (JSON_stringify orderData)\<rparr> s1)"

text \<open>A call of any one of the fifteen resource methods, with its arguments.\<close>

datatype resource_call =
    Register json
  | Login json
  | GetCurrentUser
  | GetProducts "products_params option"
  | GetProduct int
  | GetCart
  | AddToCart int "int option"
  | UpdateCartItem int int
  | RemoveFromCart int
  | ClearCart
  | GetWishlist
  | AddToWishlist int
  | RemoveFromWishlistByProduct int
  | GetOrders
  | CreateOrder json

fun invoke :: "transport \<Rightarrow> resource_call \<Rightarrow> state \<Rightarrow> outcome" where
  "invoke fetch (Register userData) s = register fetch userData s"
| "invoke fetch (Login credentials) s = login fetch credentials s"
| "invoke fetch GetCurrentUser s = getCurrentUser fetch s"
| "invoke fetch (GetProducts params) s = getProducts fetch params s"
| "invoke fetch (GetProduct ident) s = getProduct fetch ident s"
| "invoke fetch GetCart s = getCart fetch s"
| "invoke fetch (AddToCart productId quantity) s = addToCart fetch productId quantity s"
| "invoke fetch (UpdateCartItem ident quantity) s = updateCartItem fetch ident quantity s"
| "invoke fetch (RemoveFromCart ident) s = removeFromCart fetch ident s"
| "invoke fetch ClearCart s = clearCart fetch s"
| "invoke fetch GetWishlist s = getWishlist fetch s"
| "invoke fetch (AddToWishlist productId) s = addToWishlist fetch productId s"
| "invoke fetch (RemoveFromWishlistByProduct productId) s =
     removeFromWishlistByProduct fetch productId s"
| "invoke fetch GetOrders s = getOrders fetch s"
| "invoke fetch (CreateOrder orderData) s = createOrder fetch orderData s"

text \<open>A run of \<^verbatim>\<open>setToken\<close> calls, first to last.\<close>

fun setToken_all :: "string option list \<Rightarrow> state \<Rightarrow> state" where
  "setToken_all [] s = s"
| "setToken_all (t # ts) s = setToken_all ts (setToken t s)"


section \<open>Auxiliary facts\<close>

lemma token_setToken: "token (setToken t s) = t"
  by (simp add: setToken_def Let_def split: option.splits)

lemma token_setToken_all: "token (setToken_all ts s) = (if ts = [] then token s else last ts)"
  by (induction ts arbitrary: s) (simp_all add: token_setToken)

lemma token_constructor: "token (constructor v st con) = st ''auth_token''"
  by (simp add: constructor_def console_log_def)

lemma localStorage_constructor: "localStorage (constructor v st con) = st"
  by (simp add: constructor_def console_log_def)

lemma number_toString_500: "number_toString 500 = ''500''"
  by (simp add: number_toString_def digits.simps)



lemma not_ok_500: "status r = 500 \<Longrightarrow> \<not> ok r"
  by (simp add: ok_def)

lemma js_or_falsy: "\<not> truthy m \<Longrightarrow> js_or m d = d"
  by (cases m) (simp_all add: js_or_def)


lemma throw_new_Error_JString: "throw_new_Error (JString msg) = Error msg"
  by (simp add: throw_new_Error_def)

text \<open>What \<^verbatim>\<open>handleResponse\<close> throws or returns, without the console.\<close>

lemma fst_handleResponse_not_ok:
  "\<not> ok r \<Longrightarrow> fst (handleResponse r s) =
     (case json_body r of
        None \<Rightarrow> Inl (Error (fallback_message r))
      | Some v \<Rightarrow>
          (case get_message v of
             Inl e \<Rightarrow> Inl e
           | Inr m \<Rightarrow> Inl (throw_new_Error (js_or m (JString (fallback_message r))))))"
  by (simp add: handleResponse_def Let_def js_or_def throw_new_Error_def
      split: option.splits sum.splits)

lemma fst_handleResponse_ok:
  "ok r \<Longrightarrow> fst (handleResponse r s) =
     (case json_body r of Some v \<Rightarrow> Inr v | None \<Rightarrow> Inl SyntaxError)"
  by (simp add: handleResponse_def Let_def split: option.splits)

lemma handleResponse_frame:
  "token (snd (handleResponse r s)) = token s
   \<and> localStorage (snd (handleResponse r s)) = localStorage s
   \<and> baseURL (snd (handleResponse r s)) = baseURL s"
  by (simp add: handleResponse_def Let_def console_log_def console_error_def
      split: option.splits sum.splits)

lemma fetch_and_handle_frame:
  "token (snd (fetch_and_handle fetch rq s)) = token s
   \<and> localStorage (snd (fetch_and_handle fetch rq s)) = localStorage s
   \<and> baseURL (snd (fetch_and_handle fetch rq s)) = baseURL s"
  by (simp add: fetch_and_handle_def handleResponse_frame split: sum.splits)

lemma getHeaders_console_log: "getHeaders (console_log args s) = getHeaders s"
  by (simp add: getHeaders_def console_log_def)

lemma baseURL_console_log: "baseURL (console_log args s) = baseURL s"
  by (simp add: console_log_def)


text \<open>
  What a resource method throws or returns is what the transport does with the one request it
  is given, followed by \<^verbatim>\<open>handleResponse\<close>; the console does not matter.
\<close>

lemma fst_handleResponse_console_log:
  "fst (handleResponse r (console_log args s)) = fst (handleResponse r s)"
  by (simp add: handleResponse_def Let_def split: option.splits sum.splits)

lemma fst_fetch_and_handle:
  "fst (fetch_and_handle fetch rq (console_log args s)) =
     (case fetch rq of Inl e \<Rightarrow> Inl e | Inr r \<Rightarrow> fst (handleResponse r s))"
  by (simp add: fetch_and_handle_def fst_handleResponse_console_log split: sum.splits)

lemma fst_invoke_constant_transport:
  assumes "\<And>rq. fetch rq = Inr r"
  shows "fst (invoke fetch c s) = fst (handleResponse r s)"
  by (cases c)
    (simp_all add: register_def login_def getCurrentUser_def getProducts_def getProduct_def
      getCart_def addToCart_def updateCartItem_def removeFromCart_def clearCart_def
      getWishlist_def addToWishlist_def removeFromWishlistByProduct_def getOrders_def
      createOrder_def Let_def fst_fetch_and_handle assms)

lemma fst_getProducts:
  "fst (getProducts fetch params s) =
     (case fetch \<lparr>url = getProducts_url s params, http_method = None,
                  headers = getHeaders s, body = None\<rparr> of
        Inl e \<Rightarrow> Inl e
      | Inr r \<Rightarrow> fst (handleResponse r s))"
  by (simp add: getProducts_def Let_def fst_fetch_and_handle getHeaders_console_log)

lemma fst_addToCart:
  "fst (addToCart fetch productId quantity_arg s) =
     (case fetch (addToCart_request s productId quantity_arg) of
        Inl e \<Rightarrow> Inl e
      | Inr r \<Rightarrow> fst (handleResponse r s))"
proof -
  have "addToCart_request (console_log args s) productId quantity_arg =
      addToCart_request s productId quantity_arg" for args
    by (simp add: addToCart_request_def getHeaders_console_log baseURL_console_log)
  then show ?thesis
    by (simp add: addToCart_def Let_def fst_fetch_and_handle)
qed

text \<open>The entry of each filter in the query parameters of \<^verbatim>\<open>getProducts\<close>.\<close>

lemma map_of_append_entry:
  "map_of (URLSearchParams_append name val searchParams) k =
     (case map_of searchParams k of
        Some x \<Rightarrow> Some x
      | None \<Rightarrow> if k = name then Some val else None)"
  by (simp add: URLSearchParams_append_def map_add_def split: option.splits)

lemma searchParams_category:
  "map_of (getProducts_searchParams params) ''category'' =
     (case opt_chain params category of
        Some c \<Rightarrow> if c \<noteq> [] then Some c else None
      | None \<Rightarrow> None)"
  by (simp add: getProducts_searchParams_def Let_def map_of_append_entry split: option.splits)

lemma searchParams_search:
  "map_of (getProducts_searchParams params) ''search'' =
     (case opt_chain params search of
        Some q \<Rightarrow> if q \<noteq> [] then Some q else None
      | None \<Rightarrow> None)"
  by (simp add: getProducts_searchParams_def Let_def map_of_append_entry split: option.splits)

lemma searchParams_page:
  "map_of (getProducts_searchParams params) ''page'' =
     (case opt_chain params page of
        Some n \<Rightarrow> if n \<noteq> 0 then Some (number_toString n) else None
      | None \<Rightarrow> None)"
  by (simp add: getProducts_searchParams_def Let_def map_of_append_entry split: option.splits)

lemma searchParams_limit:
  "map_of (getProducts_searchParams params) ''limit'' =
     (case opt_chain params limit of
        Some n \<Rightarrow> if n \<noteq> 0 then Some (number_toString n) else None
      | None \<Rightarrow> None)"
  by (simp add: getProducts_searchParams_def Let_def map_of_append_entry split: option.splits)

section \<open>The session token and the header builder\<close>

text \<open>
  Claim C1, amended. For every run of \<^verbatim>\<open>setToken\<close> calls on a client constructed over any
  storage, the headers built afterwards hold \<^verbatim>\<open>Authorization: Bearer t\<close> exactly when the
  most recent call passed a \<open>t\<close> that is neither \<^verbatim>\<open>null\<close> nor the empty string, or, when
  there was no call, when the storage held a non-empty token under \<^verbatim>\<open>auth_token\<close> at
  construction; no \<^verbatim>\<open>Authorization\<close> header is built otherwise. The header
  \<^verbatim>\<open>Content-Type: application/json\<close> is in every header set.
\<close>

theorem getHeaders_after_setToken_calls:
  "map_of (getHeaders (setToken_all ts (constructor v st con))) ''Authorization'' =
     (case (if ts = [] then st ''auth_token'' else last ts) of
        Some t \<Rightarrow> if t \<noteq> [] then Some (''Bearer '' @ t) else None
      | None \<Rightarrow> None)
   \<and> map_of (getHeaders (setToken_all ts (constructor v st con))) ''Content-Type'' =
       Some ''application/json''"
  by (simp add: getHeaders_def token_setToken_all token_constructor split: option.splits)

theorem getHeaders_after_setToken_calls_witness:
  "map_of (getHeaders (setToken_all [None, Some ''abc''] (constructor None (map_of []) [])))
     ''Authorization'' = Some ''Bearer abc''
   \<and> map_of (getHeaders (setToken_all [Some ''abc'', None] (constructor None (map_of []) [])))
     ''Authorization'' = None
   \<and> map_of (getHeaders (setToken_all [] (constructor None (map_of [(''auth_token'', ''xyz'')]) [])))
     ''Authorization'' = Some ''Bearer xyz''
   \<and> map_of (getHeaders (setToken_all [] (constructor None (map_of []) [])))
     ''Content-Type'' = Some ''application/json''"
  using getHeaders_after_setToken_calls [of "[None, Some ''abc'']" None "map_of []" "[]"]
    getHeaders_after_setToken_calls [of "[Some ''abc'', None]" None "map_of []" "[]"]
    getHeaders_after_setToken_calls [of "[]" None "map_of [(''auth_token'', ''xyz'')]" "[]"]
    getHeaders_after_setToken_calls [of "[]" None "map_of []" "[]"]
  by simp

text \<open>
  The claim as first stated fails on the empty string: the most recent call passed a value that
  is not \<^verbatim>\<open>null\<close>, and no \<^verbatim>\<open>Authorization\<close> header is built.
\<close>

theorem getHeaders_empty_token_counterexample:
  "last [Some ''''] \<noteq> (None :: string option)
   \<and> map_of (getHeaders (setToken_all [Some ''''] (constructor None (map_of []) [])))
       ''Authorization'' = None"
  by (simp add: getHeaders_def setToken_def constructor_def console_log_def)

text \<open>
  Claim C3, amended. \<^verbatim>\<open>setToken(t)\<close> with \<open>t\<close> neither \<^verbatim>\<open>null\<close> nor empty writes \<open>t\<close>
  to the storage under \<^verbatim>\<open>auth_token\<close>, leaves every other key alone and holds \<open>t\<close> in
  memory; \<^verbatim>\<open>setToken(null)\<close> erases that key and clears the token in memory; a client
  constructed over the storage left by \<^verbatim>\<open>setToken(null)\<close> starts with no token.
\<close>

theorem setToken_storage:
  "(t \<noteq> [] \<longrightarrow>
      localStorage (setToken (Some t) s) = (localStorage s)(''auth_token'' \<mapsto> t)
      \<and> token (setToken (Some t) s) = Some t)
   \<and> localStorage (setToken None s) = (localStorage s)(''auth_token'' := None)
   \<and> token (setToken None s) = None
   \<and> token (constructor v (localStorage (setToken None s)) con) = None"
  by (simp add: setToken_def token_constructor)

theorem setToken_storage_witness:
  "''abc'' \<noteq> []
   \<and> localStorage (setToken (Some ''abc'') (constructor None (map_of []) [])) ''auth_token''
       = Some ''abc''
   \<and> token (setToken (Some ''abc'') (constructor None (map_of []) [])) = Some ''abc''
   \<and> localStorage (setToken None (constructor None (map_of [(''auth_token'', ''abc'')]) []))
        ''auth_token'' = None
   \<and> token (constructor None
        (localStorage (setToken None (constructor None (map_of [(''auth_token'', ''abc'')]) [])))
        []) = None"
  using setToken_storage [of "''abc''" "constructor None (map_of []) []" None "[]"]
    setToken_storage [of "''abc''" "constructor None (map_of [(''auth_token'', ''abc'')]) []"
      None "[]"]
  by (simp add: localStorage_constructor token_constructor)

text \<open>
  The claim as first stated fails on the empty string, which is not \<^verbatim>\<open>null\<close>: the key is
  erased, not written.
\<close>

theorem setToken_empty_string_counterexample:
  "Some '''' \<noteq> (None :: string option)
   \<and> localStorage (setToken (Some '''') (constructor None (map_of [(''auth_token'', ''abc'')]) []))
        ''auth_token'' = None"
  by (simp add: setToken_def)

text \<open>
  Claim C8. After \<^verbatim>\<open>setToken("")\<close> the storage has no entry under \<^verbatim>\<open>auth_token\<close>, the
  token in memory is the empty string, and the headers built afterwards have no
  \<^verbatim>\<open>Authorization\<close> entry: they are the \<^verbatim>\<open>Content-Type\<close> header alone.
\<close>

theorem setToken_empty_string:
  "localStorage (setToken (Some '''') s) ''auth_token'' = None
   \<and> token (setToken (Some '''') s) = Some ''''
   \<and> map_of (getHeaders (setToken (Some '''') s)) ''Authorization'' = None
   \<and> getHeaders (setToken (Some '''') s) = [(''Content-Type'', ''application/json'')]"
  by (simp add: setToken_def getHeaders_def)

theorem setToken_empty_string_witness:
  "localStorage (setToken (Some '''') (constructor None (map_of [(''auth_token'', ''abc'')]) []))
     ''auth_token'' = None
   \<and> token (setToken (Some '''') (constructor None (map_of [(''auth_token'', ''abc'')]) []))
       = Some ''''
   \<and> getHeaders (setToken (Some '''') (constructor None (map_of [(''auth_token'', ''abc'')]) []))
       = [(''Content-Type'', ''application/json'')]"
  using setToken_empty_string [of "constructor None (map_of [(''auth_token'', ''abc'')]) []"]
  by simp

section \<open>Response handling\<close>

text \<open>
  Claim C2, amended. For every response that is not ok and whose body fails to parse as JSON,
  the error thrown has the message \<^verbatim>\<open>HTTP error! status: <status code>\<close>. The converse
  does not hold: the same message is thrown when the body parses to an object whose
  \<^verbatim>\<open>message\<close> property is absent or falsy, or to a boolean, a number, a string or an
  array, which have no such property; the body \<^verbatim>\<open>null\<close> throws a \<^verbatim>\<open>TypeError\<close>.
  In particular, over a transport that answers every request with status 500 and a body that
  does not parse, every resource method throws the message \<^verbatim>\<open>HTTP error! status: 500\<close>.
\<close>

theorem handleResponse_fallback:
  "(\<not> ok r \<and> json_body r = None \<longrightarrow>
      fst (handleResponse r s) =
        Inl (Error (''HTTP error! status: '' @ number_toString (status r))))
   \<and> (\<not> ok r \<and> json_body r = Some (JObject kvs) \<and> \<not> truthy (map_of kvs ''message'') \<longrightarrow>
      fst (handleResponse r s) =
        Inl (Error (''HTTP error! status: '' @ number_toString (status r))))
   \<and> (\<not> ok r \<and> json_body r = Some v
        \<and> (v = JBool b \<or> v = JNumber n \<or> v = JString t \<or> v = JArray xs) \<longrightarrow>
      fst (handleResponse r s) =
        Inl (Error (''HTTP error! status: '' @ number_toString (status r))))
   \<and> (\<not> ok r \<and> json_body r = Some JNull \<longrightarrow> fst (handleResponse r s) = Inl TypeError)
   \<and> ((\<forall>rq. fetch rq = Inr r) \<and> status r = 500 \<and> json_body r = None \<longrightarrow>
      fst (invoke fetch c s) = Inl (Error ''HTTP error! status: 500''))"
proof (intro conjI impI)
  assume "\<not> ok r \<and> json_body r = None"
  then show "fst (handleResponse r s) =
      Inl (Error (''HTTP error! status: '' @ number_toString (status r)))"
    by (simp add: fst_handleResponse_not_ok fallback_message_def)
next
  assume "\<not> ok r \<and> json_body r = Some (JObject kvs) \<and> \<not> truthy (map_of kvs ''message'')"
  then show "fst (handleResponse r s) =
      Inl (Error (''HTTP error! status: '' @ number_toString (status r)))"
    by (simp add: fst_handleResponse_not_ok fallback_message_def js_or_falsy
        throw_new_Error_JString)
next
  assume a: "\<not> ok r \<and> json_body r = Some v
      \<and> (v = JBool b \<or> v = JNumber n \<or> v = JString t \<or> v = JArray xs)"
  then have "get_message v = Inr None"
    by auto
  with a show "fst (handleResponse r s) =
      Inl (Error (''HTTP error! status: '' @ number_toString (status r)))"
    by (simp add: fst_handleResponse_not_ok fallback_message_def js_or_falsy
        throw_new_Error_JString)
next
  assume "\<not> ok r \<and> json_body r = Some JNull"
  then show "fst (handleResponse r s) = Inl TypeError"
    by (simp add: fst_handleResponse_not_ok)
next
  assume a: "(\<forall>rq. fetch rq = Inr r) \<and> status r = 500 \<and> json_body r = None"
  then have call: "fst (invoke fetch c s) = fst (handleResponse r s)"
    by (simp add: fst_invoke_constant_transport)
  from a have "\<not> ok r"
    by (simp add: not_ok_500)
  with a call show "fst (invoke fetch c s) = Inl (Error ''HTTP error! status: 500'')"
    by (simp add: fst_handleResponse_not_ok fallback_message_def number_toString_500)
qed

theorem handleResponse_fallback_witness:
  "\<not> ok \<lparr>status = 500, statusText = ''Internal Server Error'', json_body = None\<rparr>
   \<and> fst (handleResponse
        \<lparr>status = 500, statusText = ''Internal Server Error'', json_body = None\<rparr>
        (constructor None (map_of []) []))
      = Inl (Error ''HTTP error! status: 500'')
   \<and> fst (invoke
        (\<lambda>rq. Inr \<lparr>status = 500, statusText = ''Internal Server Error'', json_body = None\<rparr>)
        (AddToCart 5 None) (constructor None (map_of []) []))
      = Inl (Error ''HTTP error! status: 500'')
   \<and> \<not> truthy (map_of [(''code'', JNumber 7)] ''message'')
   \<and> fst (handleResponse
        \<lparr>status = 403, statusText = ''Forbidden'',
         json_body = Some (JObject [(''code'', JNumber 7)])\<rparr>
        (constructor None (map_of []) []))
      = Inl (Error ''HTTP error! status: 403'')
   \<and> fst (handleResponse
        \<lparr>status = 403, statusText = ''Forbidden'', json_body = Some (JString ''denied'')\<rparr>
        (constructor None (map_of []) []))
      = Inl (Error ''HTTP error! status: 403'')
   \<and> fst (handleResponse
        \<lparr>status = 400, statusText = ''Bad Request'', json_body = Some JNull\<rparr>
        (constructor None (map_of []) []))
      = Inl TypeError"
  using handleResponse_fallback
      [of "\<lparr>status = 500, statusText = ''Internal Server Error'', json_body = None\<rparr>"
          "constructor None (map_of []) []" "[]" JNull True 0 "[]" "[]"
          "\<lambda>rq. Inr \<lparr>status = 500, statusText = ''Internal Server Error'', json_body = None\<rparr>"
          "AddToCart 5 None"]
    handleResponse_fallback
      [of "\<lparr>status = 403, statusText = ''Forbidden'',
            json_body = Some (JObject [(''code'', JNumber 7)])\<rparr>"
          "constructor None (map_of []) []" "[(''code'', JNumber 7)]" JNull True 0 "[]" "[]"
          "\<lambda>rq. Inl TypeError" GetCart]
    handleResponse_fallback
      [of "\<lparr>status = 403, statusText = ''Forbidden'', json_body = Some (JString ''denied'')\<rparr>"
          "constructor None (map_of []) []" "[]" "JString ''denied''" True 0 "''denied''" "[]"
          "\<lambda>rq. Inl TypeError" GetCart]
    handleResponse_fallback
      [of "\<lparr>status = 400, statusText = ''Bad Request'', json_body = Some JNull\<rparr>"
          "constructor None (map_of []) []" "[]" JNull True 0 "[]" "[]"
          "\<lambda>rq. Inl TypeError" GetCart]
  by (simp add: ok_def number_toString_def digits.simps)

text \<open>
  The claim as first stated fails on a body that parses: status 500 with the body \<^verbatim>\<open>{}\<close>
  throws the fallback message although the parse succeeds.
\<close>

theorem handleResponse_fallback_counterexample:
  "\<not> ok \<lparr>status = 500, statusText = ''Internal Server Error'', json_body = Some (JObject [])\<rparr>
   \<and> json_body \<lparr>status = 500, statusText = ''Internal Server Error'',
        json_body = Some (JObject [])\<rparr> \<noteq> None
   \<and> fst (handleResponse
        \<lparr>status = 500, statusText = ''Internal Server Error'', json_body = Some (JObject [])\<rparr>
        (constructor None (map_of []) []))
      = Inl (Error ''HTTP error! status: 500'')"
  by (simp add: fst_handleResponse_not_ok ok_def fallback_message_def js_or_def
      throw_new_Error_def number_toString_500)






section \<open>Query parameters and request bodies\<close>

text \<open>
  Claim C4. For \<^verbatim>\<open>getProducts({ page: 2, limit: 10 })\<close> the query parameters are the two
  entries \<^verbatim>\<open>page=2\<close> and \<^verbatim>\<open>limit=10\<close>, the numbers in decimal; the URL built ends in
  \<^verbatim>\<open>/products?page=2&limit=10\<close>, and over every transport the outcome of the call is that
  of the transport on the request with this URL. For \<^verbatim>\<open>getProducts({})\<close> and
  \<^verbatim>\<open>getProducts()\<close> there is no entry, the query string is empty and the request goes to
  \<^verbatim>\<open>/products?\<close>. A filter that is absent has no entry at all, for every argument.
\<close>

theorem getProducts_query_string:
  "getProducts_searchParams
     (Some \<lparr>category = None, search = None, page = Some 2, limit = Some 10\<rparr>)
     = [(''page'', ''2''), (''limit'', ''10'')]
   \<and> getProducts_url s
       (Some \<lparr>category = None, search = None, page = Some 2, limit = Some 10\<rparr>)
     = baseURL s @ ''/products?page=2&limit=10''
   \<and> fst (getProducts fetch
       (Some \<lparr>category = None, search = None, page = Some 2, limit = Some 10\<rparr>) s)
     = (case fetch \<lparr>url = baseURL s @ ''/products?page=2&limit=10'', http_method = None,
                    headers = getHeaders s, body = None\<rparr> of
          Inl e \<Rightarrow> Inl e
        | Inr r \<Rightarrow> fst (handleResponse r s))
   \<and> getProducts_searchParams
       (Some \<lparr>category = None, search = None, page = None, limit = None\<rparr>) = []
   \<and> getProducts_searchParams None = []
   \<and> getProducts_url s
       (Some \<lparr>category = None, search = None, page = None, limit = None\<rparr>)
     = baseURL s @ ''/products?''
   \<and> getProducts_url s None = baseURL s @ ''/products?''
   \<and> fst (getProducts fetch
       (Some \<lparr>category = None, search = None, page = None, limit = None\<rparr>) s)
     = (case fetch \<lparr>url = baseURL s @ ''/products?'', http_method = None,
                    headers = getHeaders s, body = None\<rparr> of
          Inl e \<Rightarrow> Inl e
        | Inr r \<Rightarrow> fst (handleResponse r s))
   \<and> fst (getProducts fetch None s)
     = (case fetch \<lparr>url = baseURL s @ ''/products?'', http_method = None,
                    headers = getHeaders s, body = None\<rparr> of
          Inl e \<Rightarrow> Inl e
        | Inr r \<Rightarrow> fst (handleResponse r s))
   \<and> (opt_chain params category = None \<longrightarrow>
        map_of (getProducts_searchParams params) ''category'' = None)
   \<and> (opt_chain params search = None \<longrightarrow>
        map_of (getProducts_searchParams params) ''search'' = None)
   \<and> (opt_chain params page = None \<longrightarrow>
        map_of (getProducts_searchParams params) ''page'' = None)
   \<and> (opt_chain params limit = None \<longrightarrow>
        map_of (getProducts_searchParams params) ''limit'' = None)"
proof -
  have two_ten: "getProducts_searchParams
      (Some \<lparr>category = None, search = None, page = Some 2, limit = Some 10\<rparr>)
      = [(''page'', ''2''), (''limit'', ''10'')]"
    by (simp add: getProducts_searchParams_def opt_chain_def URLSearchParams_append_def
        number_toString_def digits.simps)
  have enc: "URLSearchParams_toString [(''page'', ''2''), (''limit'', ''10'')]
      = ''page=2&limit=10''"
    by (simp add: URLSearchParams_toString_def urlencode_def urlencode_byte_def)
  have none: "getProducts_searchParams None = []"
    by (simp add: getProducts_searchParams_def opt_chain_def)
  have empty: "getProducts_searchParams
      (Some \<lparr>category = None, search = None, page = None, limit = None\<rparr>) = []"
    by (simp add: getProducts_searchParams_def opt_chain_def)
  have str: "URLSearchParams_toString [] = []"
    by (simp add: URLSearchParams_toString_def)
  have url_two_ten: "getProducts_url s
      (Some \<lparr>category = None, search = None, page = Some 2, limit = Some 10\<rparr>)
      = baseURL s @ ''/products?page=2&limit=10''"
    by (simp add: getProducts_url_def two_ten enc)
  have url_empty: "getProducts_url s
      (Some \<lparr>category = None, search = None, page = None, limit = None\<rparr>)
      = baseURL s @ ''/products?''"
    by (simp add: getProducts_url_def empty str)
  have url_none: "getProducts_url s None = baseURL s @ ''/products?''"
    by (simp add: getProducts_url_def none str)
  show ?thesis
    by (simp add: two_ten none empty fst_getProducts url_two_ten url_empty url_none
        searchParams_category searchParams_search searchParams_page searchParams_limit)
qed

theorem getProducts_query_string_witness:
  "fst (getProducts (\<lambda>rq. Inl (Error (url rq)))
      (Some \<lparr>category = None, search = None, page = Some 2, limit = Some 10\<rparr>)
      (constructor None (map_of []) []))
     = Inl (Error ''http://localhost:5000/api/products?page=2&limit=10'')
   \<and> fst (getProducts (\<lambda>rq. Inl (Error (url rq))) None (constructor None (map_of []) []))
     = Inl (Error ''http://localhost:5000/api/products?'')
   \<and> opt_chain (Some \<lparr>category = None, search = Some ''mug'', page = None, limit = Some 3\<rparr>)
      category = None
   \<and> map_of (getProducts_searchParams
        (Some \<lparr>category = None, search = Some ''mug'', page = None, limit = Some 3\<rparr>))
        ''category'' = None
   \<and> opt_chain (Some \<lparr>category = None, search = Some ''mug'', page = None, limit = Some 3\<rparr>)
      page = None
   \<and> map_of (getProducts_searchParams
        (Some \<lparr>category = None, search = Some ''mug'', page = None, limit = Some 3\<rparr>))
        ''page'' = None
   \<and> map_of (getProducts_searchParams
        (Some \<lparr>category = Some ''toys'', search = None, page = Some 4, limit = None\<rparr>))
        ''search'' = None
   \<and> map_of (getProducts_searchParams
        (Some \<lparr>category = Some ''toys'', search = None, page = Some 4, limit = None\<rparr>))
        ''limit'' = None"
  using getProducts_query_string
      [of "constructor None (map_of []) []" "\<lambda>rq. Inl (Error (url rq))"
          "Some \<lparr>category = None, search = Some ''mug'', page = None, limit = Some 3\<rparr>"]
    getProducts_query_string
      [of "constructor None (map_of []) []" "\<lambda>rq. Inl (Error (url rq))"
          "Some \<lparr>category = Some ''toys'', search = None, page = Some 4, limit = None\<rparr>"]
  by (simp add: opt_chain_def constructor_def console_log_def API_BASE_URL_def)

text \<open>
  Claim C9. \<^verbatim>\<open>getProducts\<close> leaves out every filter whose value is falsy: a \<^verbatim>\<open>page\<close> or
  a \<^verbatim>\<open>limit\<close> of 0 and an empty \<^verbatim>\<open>category\<close> or \<^verbatim>\<open>search\<close> have no entry, whatever
  the other filters are.
\<close>

theorem getProducts_falsy_omitted:
  "map_of (getProducts_searchParams (Some (p\<lparr>page := Some 0\<rparr>))) ''page'' = None
   \<and> map_of (getProducts_searchParams (Some (p\<lparr>limit := Some 0\<rparr>))) ''limit'' = None
   \<and> map_of (getProducts_searchParams (Some (p\<lparr>category := Some ''''\<rparr>))) ''category'' = None
   \<and> map_of (getProducts_searchParams (Some (p\<lparr>search := Some ''''\<rparr>))) ''search'' = None
   \<and> getProducts_searchParams
       (Some \<lparr>category = Some '''', search = Some '''', page = Some 0, limit = Some 0\<rparr>) = []"
proof -
  have "getProducts_searchParams
      (Some \<lparr>category = Some '''', search = Some '''', page = Some 0, limit = Some 0\<rparr>) = []"
    by (simp add: getProducts_searchParams_def opt_chain_def)
  then show ?thesis
    by (simp add: searchParams_category searchParams_search searchParams_page
        searchParams_limit opt_chain_def)
qed

theorem getProducts_falsy_omitted_witness:
  "map_of (getProducts_searchParams
     (Some \<lparr>category = Some ''toys'', search = None, page = Some 0, limit = Some 10\<rparr>))
     ''page'' = None
   \<and> map_of (getProducts_searchParams
     (Some \<lparr>category = Some '''', search = None, page = Some 3, limit = Some 10\<rparr>))
     ''category'' = None"
  using getProducts_falsy_omitted
      [of "\<lparr>category = Some ''toys'', search = None, page = Some 3, limit = Some 10\<rparr>"]
  by simp

text \<open>
  Claim C7. For every product id \<open>p\<close> and over every transport, the outcome of
  \<^verbatim>\<open>addToCart(p)\<close> without a quantity is that of the transport on the \<^verbatim>\<open>POST\<close>
  request to \<^verbatim>\<open>/cart\<close> whose body serialises the object with \<^verbatim>\<open>product_id\<close> \<open>p\<close>
  and \<^verbatim>\<open>quantity\<close> 1, and the call is the call with the quantity 1. For
  \<^verbatim>\<open>addToCart(5)\<close> the body sent is the text \<^verbatim>\<open>{"product_id":5,"quantity":1}\<close>.
\<close>

theorem addToCart_default_quantity:
  "fst (addToCart fetch p None s) =
     (case fetch \<lparr>url = baseURL s @ ''/cart'', http_method = Some ''POST'',
                  headers = getHeaders s,
                  body = Some (JSON_stringify
                    (JObject [(''product_id'', JNumber p), (''quantity'', JNumber 1)]))\<rparr> of
        Inl e \<Rightarrow> Inl e
      | Inr r \<Rightarrow> fst (handleResponse r s))
   \<and> addToCart fetch p None s = addToCart fetch p (Some 1) s
   \<and> fst (addToCart fetch 5 None s) =
     (case fetch \<lparr>url = baseURL s @ ''/cart'', http_method = Some ''POST'',
                  headers = getHeaders s,
                  body = Some (''{'' @ [CHR 0x22] @ ''product_id'' @ [CHR 0x22] @ '':5,''
                    @ [CHR 0x22] @ ''quantity'' @ [CHR 0x22] @ '':1}'')\<rparr> of
        Inl e \<Rightarrow> Inl e
      | Inr r \<Rightarrow> fst (handleResponse r s))
   \<and> JSON_stringify (JObject [(''product_id'', JNumber 5), (''quantity'', JNumber 1)]) =
       ''{'' @ [CHR 0x22] @ ''product_id'' @ [CHR 0x22] @ '':5,''
         @ [CHR 0x22] @ ''quantity'' @ [CHR 0x22] @ '':1}''"
proof -
  have str: "JSON_stringify (JObject [(''product_id'', JNumber 5), (''quantity'', JNumber 1)]) =
       ''{'' @ [CHR 0x22] @ ''product_id'' @ [CHR 0x22] @ '':5,''
         @ [CHR 0x22] @ ''quantity'' @ [CHR 0x22] @ '':1}''"
    by (simp add: quote_string_def quote_char_def number_toString_def digits.simps)
  have req: "addToCart_request s q None =
      \<lparr>url = baseURL s @ ''/cart'', http_method = Some ''POST'', headers = getHeaders s,
       body = Some (JSON_stringify
         (JObject [(''product_id'', JNumber q), (''quantity'', JNumber 1)]))\<rparr>" for q
    by (simp add: addToCart_request_def)
  have sent: "fst (addToCart fetch q None s) =
     (case fetch \<lparr>url = baseURL s @ ''/cart'', http_method = Some ''POST'',
                  headers = getHeaders s,
                  body = Some (JSON_stringify
                    (JObject [(''product_id'', JNumber q), (''quantity'', JNumber 1)]))\<rparr> of
        Inl e \<Rightarrow> Inl e
      | Inr r \<Rightarrow> fst (handleResponse r s))" for q
    by (simp only: fst_addToCart req)
  have dflt: "addToCart fetch p None s = addToCart fetch p (Some 1) s"
    by (simp add: addToCart_def addToCart_request_def)
  from sent [of 5] have five: "fst (addToCart fetch 5 None s) =
     (case fetch \<lparr>url = baseURL s @ ''/cart'', http_method = Some ''POST'',
                  headers = getHeaders s,
                  body = Some (''{'' @ [CHR 0x22] @ ''product_id'' @ [CHR 0x22] @ '':5,''
                    @ [CHR 0x22] @ ''quantity'' @ [CHR 0x22] @ '':1}'')\<rparr> of
        Inl e \<Rightarrow> Inl e
      | Inr r \<Rightarrow> fst (handleResponse r s))"
    by (simp only: str)
  from sent [of p] dflt five str show ?thesis
    by (intro conjI)
qed

theorem addToCart_default_quantity_witness:
  "fst (addToCart (\<lambda>rq. Inl (Error (case body rq of Some b \<Rightarrow> b | None \<Rightarrow> []))) 5 None
     (constructor None (map_of []) [])) =
     Inl (Error (''{'' @ [CHR 0x22] @ ''product_id'' @ [CHR 0x22] @ '':5,''
         @ [CHR 0x22] @ ''quantity'' @ [CHR 0x22] @ '':1}''))
   \<and> fst (addToCart
       (\<lambda>rq. if http_method rq = Some ''POST''
          \<and> url rq = ''http://localhost:5000/api/cart''
          \<and> headers rq = [(''Content-Type'', ''application/json'')]
          then Inr \<lparr>status = 200, statusText = ''OK'', json_body = Some (JBool True)\<rparr>
          else Inl TypeError) 5 None
     (constructor None (map_of []) [])) = Inr (JBool True)"
proof -
  note sent = addToCart_default_quantity
      [of "\<lambda>rq. Inl (Error (case body rq of Some b \<Rightarrow> b | None \<Rightarrow> []))" 5
          "constructor None (map_of []) []"]
  note answered = addToCart_default_quantity
      [of "\<lambda>rq. if http_method rq = Some ''POST''
          \<and> url rq = ''http://localhost:5000/api/cart''
          \<and> headers rq = [(''Content-Type'', ''application/json'')]
          then Inr \<lparr>status = 200, statusText = ''OK'', json_body = Some (JBool True)\<rparr>
          else Inl TypeError" 5
          "constructor None (map_of []) []"]
  have a: "fst (addToCart (\<lambda>rq. Inl (Error (case body rq of Some b \<Rightarrow> b | None \<Rightarrow> []))) 5 None
     (constructor None (map_of []) [])) =
     Inl (Error (''{'' @ [CHR 0x22] @ ''product_id'' @ [CHR 0x22] @ '':5,''
         @ [CHR 0x22] @ ''quantity'' @ [CHR 0x22] @ '':1}''))"
    using sent [THEN conjunct2, THEN conjunct2, THEN conjunct1] by simp
  have b: "fst (addToCart
       (\<lambda>rq. if http_method rq = Some ''POST''
          \<and> url rq = ''http://localhost:5000/api/cart''
          \<and> headers rq = [(''Content-Type'', ''application/json'')]
          then Inr \<lparr>status = 200, statusText = ''OK'', json_body = Some (JBool True)\<rparr>
          else Inl TypeError) 5 None
     (constructor None (map_of []) [])) = Inr (JBool True)"
    using answered [THEN conjunct2, THEN conjunct2, THEN conjunct1]
    by (simp add: constructor_def console_log_def API_BASE_URL_def getHeaders_def
        fst_handleResponse_ok ok_def)
  from a b show ?thesis
    by (intro conjI)
qed

section \<open>The frame of the resource methods\<close>

text \<open>
  Claim C10. No resource method and no step of the response handling changes the token in
  memory or the storage: for every call of a resource method, over any transport, the token
  and the storage after the call are those before it. (Header construction returns the
  headers and no state.)
\<close>

theorem resource_methods_frame:
  "token (snd (invoke fetch c s)) = token s
   \<and> localStorage (snd (invoke fetch c s)) = localStorage s
   \<and> token (snd (handleResponse r s)) = token s
   \<and> localStorage (snd (handleResponse r s)) = localStorage s"
proof -
  have log: "\<And>args. token (console_log args s) = token s
      \<and> localStorage (console_log args s) = localStorage s"
    by (simp add: console_log_def)
  have "token (snd (invoke fetch c s)) = token s
      \<and> localStorage (snd (invoke fetch c s)) = localStorage s"
    by (cases c)
      (simp_all add: register_def login_def getCurrentUser_def getProducts_def getProduct_def
        getCart_def addToCart_def updateCartItem_def removeFromCart_def clearCart_def
        getWishlist_def addToWishlist_def removeFromWishlistByProduct_def getOrders_def
        createOrder_def Let_def fetch_and_handle_frame log)
  then show ?thesis
    by (simp add: handleResponse_frame)
qed

theorem resource_methods_frame_witness:
  "token (snd (invoke
      (\<lambda>rq. Inr \<lparr>status = 401, statusText = ''Unauthorized'', json_body = None\<rparr>)
      GetCurrentUser
      (constructor None (map_of [(''auth_token'', ''abc'')]) []))) = Some ''abc''
   \<and> localStorage (snd (invoke
      (\<lambda>rq. Inr \<lparr>status = 401, statusText = ''Unauthorized'', json_body = None\<rparr>)
      GetCurrentUser
      (constructor None (map_of [(''auth_token'', ''abc'')]) []))) ''auth_token'' = Some ''abc''"
  using resource_methods_frame
      [of "\<lambda>rq. Inr \<lparr>status = 401, statusText = ''Unauthorized'', json_body = None\<rparr>"
          GetCurrentUser
          "constructor None (map_of [(''auth_token'', ''abc'')]) []"]
  by (simp add: token_constructor localStorage_constructor)

end
